theory Spec2Isabelle
  imports Complex_Main "HOL-Library.Sublist"
begin

section \<open>Numbers and time\<close>

text \<open>
  A finite \<open>float64\<close> is modelled as a \<^typ>\<open>real\<close>: comparisons are exact, and the
  rounding of the one addition in \<open>Upstream\<close> is not modelled. A \<open>time.Duration\<close> is a
  count of nanoseconds and a \<open>time.Time\<close> an instant in nanoseconds, both \<^typ>\<open>int\<close>.
\<close>

type_synonym float64 = real
type_synonym Duration = int
type_synonym Time = int

text \<open>\<open>Duration.Microseconds\<close> is the integer division \<open>int64(d) / 1e3\<close>, which truncates
  toward zero.\<close>

definition Microseconds :: "Duration \<Rightarrow> int" where
  "Microseconds d = (if d < 0 then - ((- d) div 1000) else d div 1000)"

text \<open>The conversion \<open>int(x)\<close> of a \<open>float64\<close> truncates toward zero; outside the range of
  a 64-bit \<open>int\<close> its result is left to the implementation, which is \<open>None\<close> here.\<close>

definition truncate_float :: "float64 \<Rightarrow> int" where
  "truncate_float x = (if x < 0 then \<lceil>x\<rceil> else \<lfloor>x\<rfloor>)"

definition int_of_float64 :: "float64 \<Rightarrow> int option" where
  "int_of_float64 x =
     (let t = truncate_float x
      in if - (2 ^ 63) \<le> t \<and> t < 2 ^ 63 then Some t else None)"

text \<open>\<open>n + 1\<close> on a 64-bit \<open>int\<close> wraps around from \<open>2\<^sup>6\<^sup>3 - 1\<close> to \<open>- 2\<^sup>6\<^sup>3\<close>.\<close>

definition int64_succ :: "int \<Rightarrow> int" where
  "int64_succ n = (n + 1 + 2 ^ 63) mod 2 ^ 64 - 2 ^ 63"

section \<open>The feedback loop\<close>

text \<open>
  Modelled from the spec: the type \<open>MovingAverage\<close> with \<open>NewMovingAverage\<close>, \<open>Add\<close> and
  \<open>Average\<close> is used by \<open>upstreamer.go\<close> and declared in a file that is not among the
  sources. It is a ring buffer of up to \<open>capacity\<close> samples with a write index;
  \<open>Add\<close> appends and, once full, overwrites the oldest sample; \<open>Average\<close> is the
  arithmetic mean of the stored samples and \<open>0\<close> when there are none.
\<close>

record MovingAverage =
  capacity :: nat
  samples :: "float64 list"
  nextIdx :: nat

definition NewMovingAverage :: "nat \<Rightarrow> MovingAverage" where
  "NewMovingAverage n = \<lparr>capacity = n, samples = [], nextIdx = 0\<rparr>"

definition Add :: "MovingAverage \<Rightarrow> float64 \<Rightarrow> MovingAverage" where
  "Add ma x =
     (if length (samples ma) < capacity ma
      then ma\<lparr>samples := samples ma @ [x], nextIdx := (nextIdx ma + 1) mod capacity ma\<rparr>
      else ma\<lparr>samples := (samples ma)[nextIdx ma := x],
              nextIdx := (nextIdx ma + 1) mod capacity ma\<rparr>)"

definition Average :: "MovingAverage \<Rightarrow> float64" where
  "Average ma =
     (if samples ma = [] then 0 else sum_list (samples ma) / real (length (samples ma)))"

section \<open>The upstreamer\<close>

text \<open>An \<open>endpointInfo\<close> as \<open>Upstream\<close> reads it: its address and the load of its last
  ping (its lock and \<open>lastSeen\<close> play no part in the selection).\<close>

record endpointInfo =
  address :: string
  lastLoad :: float64

text \<open>The fields of \<open>upstreamConfig\<close> that \<open>upstreamer.go\<close> reads. The randomizer is not
  a field here: what it returns is an argument of \<open>Upstream\<close>.\<close>

record upstreamConfig =
  requiredServices :: "string list"
  serviceTimeout :: Duration
  feedbackLoopSamples :: nat
  exposePrivateAPIs :: bool
  eventsAPIs :: "string list"
  overrideEndpointAddress :: string

text \<open>\<open>apis\<close> is a Go map from a route identity to a slice of endpoints: a missing key
  reads as the empty slice. \<open>feedbackLoop\<close> is the \<open>sync.Map\<close> from an address to
  its moving average.\<close>

record Upstreamer =
  apis :: "string \<Rightarrow> endpointInfo list"
  config :: upstreamConfig
  feedbackLoop :: "string \<rightharpoonup> MovingAverage"

text \<open>
  What the shared randomizer returns during one call of \<open>Upstream\<close>: the two indices
  that \<open>pick(randomizer, l)\<close> gives (\<open>pick\<close> is not among the sources), and the value
  of \<open>randomizer.Intn(n)\<close>. \<open>rand.Intn\<close> panics when \<open>n \<le> 0\<close> and otherwise returns
  a value in \<open>[0, n)\<close>; \<open>Intn_contract\<close> is the second half.
\<close>

record randomizer =
  pick :: "nat \<Rightarrow> nat \<times> nat"
  Intn :: "int \<Rightarrow> int"

definition Intn_contract :: "randomizer \<Rightarrow> bool" where
  "Intn_contract r = (\<forall>n. 0 < n \<longrightarrow> 0 \<le> Intn r n \<and> Intn r n < n)"

datatype 'a go_result =
    Returned 'a
  | Panicked
  | Unspecified

definition measure_address :: "Upstreamer \<Rightarrow> string \<Rightarrow> float64" where
  "measure_address c addr =
     (case feedbackLoop c addr of Some ma \<Rightarrow> Average ma | None \<Rightarrow> 0)"

definition Collect_sample :: "Upstreamer \<Rightarrow> string \<Rightarrow> Duration \<Rightarrow> Upstreamer" where
  "Collect_sample c addr responseTime =
     (let v = real_of_int (Microseconds responseTime)
      in if v = 0 then c
         else (case feedbackLoop c addr of
                 Some values \<Rightarrow> c\<lparr>feedbackLoop := (feedbackLoop c)(addr \<mapsto> Add values v)\<rparr>
               | None \<Rightarrow>
                   c\<lparr>feedbackLoop :=
                       (feedbackLoop c)(addr \<mapsto>
                          NewMovingAverage (feedbackLoopSamples (config c)))\<rparr>))"

text \<open>The second half of \<open>Upstream\<close>, from the two chosen endpoints on: the weights, the
  fallback to the loads, the sort, the cumulative weight, the draw and the choice.\<close>

definition weighted_choice :: "Upstreamer \<Rightarrow> randomizer \<Rightarrow> endpointInfo \<Rightarrow> endpointInfo
    \<Rightarrow> (string \<times> float64) go_result" where
  "weighted_choice c r epi1 epi2 =
     (let a0 = address epi1; a1 = address epi2;
          l0 = lastLoad epi1; l1 = lastLoad epi2;
          m0 = measure_address c a0; m1 = measure_address c a1;
          (w0, w1) = (if m0 = 0 \<or> m1 = 0 then (l0, l1) else (m0, m1));
          (a0, a1, l0, l1, w0, w1) =
             (if w0 > w1 then (a1, a0, l1, l0, w1, w0) else (a0, a1, l0, l1, w0, w1));
          w1 = w0 + w1
      in case int_of_float64 w1 of
           None \<Rightarrow> Unspecified
         | Some t \<Rightarrow>
             (let n = int64_succ t
              in if n \<le> 0 then Panicked
                 else (let draw = real_of_int (Intn r n)
                       in if draw \<le> w0 then Returned (a1, l1) else Returned (a0, l0))))"

text \<open>\<open>getTargetIdentity\<close> is not among the sources: it is a parameter.\<close>

definition Upstream :: "(string \<Rightarrow> string) \<Rightarrow> Upstreamer \<Rightarrow> randomizer \<Rightarrow> string
    \<Rightarrow> (string \<times> float64) go_result" where
  "Upstream getTargetIdentity c r path =
     (let identity = getTargetIdentity path;
          eps = apis c identity;
          l = length eps
      in if l = 0 then Returned ('''', 0)
         else if l = 1 then Returned (address (eps ! 0), lastLoad (eps ! 0))
         else (let (n1, n2) = (if l = 2 then (0, 1) else pick r l)
               in if n1 < l \<and> n2 < l then weighted_choice c r (eps ! n1) (eps ! n2)
                  else Panicked))"

definition NewUpstreamer :: "upstreamConfig \<Rightarrow> Upstreamer" where
  "NewUpstreamer cfg = \<lparr>apis = (\<lambda>identity. []), config = cfg, feedbackLoop = Map.empty\<rparr>"

subsection \<open>The selection as the specification words it\<close>



section \<open>The listener\<close>

subsection \<open>Pings and the endpoint override\<close>

text \<open>
  Modelled from the spec: the wire record \<open>ping\<close> and the two status constants are
  declared in a file that is not among the sources. The record has the fields the
  specification lists; \<open>upstreamer.go\<close> reads \<open>Name\<close>, \<open>Endpoint\<close> and \<open>Status\<close>.
\<close>

record ping =
  Name :: string
  Endpoint :: string
  Status :: string
  Routes :: "string list"
  PrivateRoutes :: "string list"
  EventRoutes :: "string list"
  Load :: float64

definition serviceStatusHello :: string where
  "serviceStatusHello = ''hello''"

definition serviceStatusGoodbye :: string where
  "serviceStatusGoodbye = ''goodbye''"

text \<open>
  \<open>net.SplitHostPort\<close> belongs to the Go standard library. It splits \<open>host:port\<close> and
  \<open>[host]:port\<close> at the last colon and rejects an address with no colon, with a colon
  in an unbracketed host, or with a stray bracket.
\<close>

datatype AddrError =
    MissingPort
  | TooManyColons
  | MissingClosingBracket
  | UnexpectedOpeningBracket
  | UnexpectedClosingBracket

definition IndexByte :: "string \<Rightarrow> char \<Rightarrow> nat option" where
  "IndexByte s ch =
     (if ch \<in> set s then Some (length (takeWhile (\<lambda>x. x \<noteq> ch) s)) else None)"

definition LastIndexByte :: "string \<Rightarrow> char \<Rightarrow> nat option" where
  "LastIndexByte s ch =
     (if ch \<in> set s
      then Some (length s - 1 - length (takeWhile (\<lambda>x. x \<noteq> ch) (rev s)))
      else None)"

definition checkBrackets :: "string \<Rightarrow> nat \<Rightarrow> nat \<Rightarrow> nat \<Rightarrow> string
    \<Rightarrow> AddrError + (string \<times> string)" where
  "checkBrackets hostport i j k host =
     (if IndexByte (drop j hostport) (CHR ''['') \<noteq> None then Inl UnexpectedOpeningBracket
      else if IndexByte (drop k hostport) (CHR '']'') \<noteq> None then Inl UnexpectedClosingBracket
      else Inr (host, drop (i + 1) hostport))"

definition SplitHostPort :: "string \<Rightarrow> AddrError + (string \<times> string)" where
  "SplitHostPort hostport =
     (case LastIndexByte hostport (CHR '':'') of
        None \<Rightarrow> Inl MissingPort
      | Some i \<Rightarrow>
          if hostport ! 0 = CHR ''[''
          then (case IndexByte hostport (CHR '']'') of
                  None \<Rightarrow> Inl MissingClosingBracket
                | Some e \<Rightarrow>
                    if e + 1 = length hostport then Inl MissingPort
                    else if e + 1 = i
                      then checkBrackets hostport i 1 (e + 1) (drop 1 (take e hostport))
                    else if hostport ! (e + 1) = CHR '':'' then Inl TooManyColons
                    else Inl MissingPort)
          else (let host = take i hostport
                in if IndexByte host (CHR '':'') \<noteq> None then Inl TooManyColons
                   else checkBrackets hostport i 0 0 host))"

text \<open>Lines 191 to 196 of \<open>listenService\<close>: with an override configured, an endpoint
  that splits into host and port gets the override as its host; any other endpoint is
  left as it is.\<close>

definition overrideEndpoint :: "upstreamConfig \<Rightarrow> ping \<Rightarrow> ping" where
  "overrideEndpoint cfg sp =
     (if overrideEndpointAddress cfg \<noteq> ''''
      then (case SplitHostPort (Endpoint sp) of
              Inr (h, p) \<Rightarrow> sp\<lparr>Endpoint := overrideEndpointAddress cfg @ '':'' @ p\<rparr>
            | Inl err \<Rightarrow> sp)
      else sp)"

subsection \<open>The registry\<close>

text \<open>
  The registry \<open>servicesConfig\<close> and the functions \<open>handleAddServicePing\<close>,
  \<open>handleRemoveServicePing\<close>, \<open>resyncRoutes\<close> and \<open>outdatedEndpoints\<close> are not among
  the sources: the registry is a type parameter and the functions are parameters. The
  two handlers return the changed registry with their boolean result.
  \<open>outdatedEndpoints\<close> lists, in the order of the two nested loops of the ticker
  branch, each service name with each of its endpoints last seen before the given time.
\<close>

record 'svc registry =
  emptyServices :: 'svc
  handleAddServicePing :: "'svc \<Rightarrow> ping \<Rightarrow> 'svc \<times> bool"
  handleRemoveServicePing :: "'svc \<Rightarrow> ping \<Rightarrow> 'svc \<times> bool"
  resyncRoutes :: "'svc \<Rightarrow> bool \<Rightarrow> string list \<Rightarrow> string \<Rightarrow> endpointInfo list"
  outdatedEndpoints :: "'svc \<Rightarrow> Time \<Rightarrow> (string \<times> string) list"

subsection \<open>The loop of \<open>listenService\<close>\<close>

datatype listener_status = Listening | ListenerReturned | ProcessExited | ListenerPanicked

text \<open>The upstreamer with the local variables of \<open>listenService\<close>. \<open>readyCloses\<close>
  counts the calls of \<open>close(ready)\<close>; a second one panics.\<close>

record 'svc listener =
  upstreamer :: Upstreamer
  services :: 'svc
  requiredCount :: nat
  requiredReady :: nat
  requiredNotifSent :: bool
  requiredSeen :: "string \<rightharpoonup> bool"
  readyCloses :: nat
  status :: listener_status

definition closeReady :: "'svc listener \<Rightarrow> 'svc listener" where
  "closeReady st =
     st\<lparr>readyCloses := readyCloses st + 1,
        status := (if readyCloses st > 0 then ListenerPanicked else status st)\<rparr>"

definition resync :: "'svc registry \<Rightarrow> 'svc listener \<Rightarrow> 'svc listener" where
  "resync ops st =
     (let c = upstreamer st
      in st\<lparr>upstreamer :=
              c\<lparr>apis := resyncRoutes ops (services st) (exposePrivateAPIs (config c))
                           (eventsAPIs (config c))\<rparr>\<rparr>)"

definition feedbackDelete :: "string \<Rightarrow> 'svc listener \<Rightarrow> 'svc listener" where
  "feedbackDelete ep st =
     (let c = upstreamer st
      in st\<lparr>upstreamer := c\<lparr>feedbackLoop := (feedbackLoop c)(ep := None)\<rparr>\<rparr>)"

definition listenServiceStart :: "'svc registry \<Rightarrow> Upstreamer \<Rightarrow> 'svc listener" where
  "listenServiceStart ops c =
     (let st = \<lparr>upstreamer = c,
                services = emptyServices ops,
                requiredCount = length (requiredServices (config c)),
                requiredReady = 0,
                requiredNotifSent = False,
                requiredSeen =
                  foldl (\<lambda>m srv. m(srv \<mapsto> False)) Map.empty (requiredServices (config c)),
                readyCloses = 0,
                status = Listening\<rparr>
      in if requiredCount st = 0 then closeReady (st\<lparr>requiredNotifSent := True\<rparr>) else st)"

text \<open>The ticker branch. \<open>foundOutdated || handleRemoveServicePing(...)\<close> evaluates its
  right operand only while \<open>foundOutdated\<close> is still false.\<close>

definition removeOutdated :: "'svc registry \<Rightarrow> ('svc listener \<times> bool) \<Rightarrow> (string \<times> string)
    \<Rightarrow> ('svc listener \<times> bool)" where
  "removeOutdated ops acc item =
     (case (acc, item) of ((st, foundOutdated), (srvName, ep)) \<Rightarrow>
        (let (st1, found1) =
               (if foundOutdated then (st, True)
                else (case handleRemoveServicePing ops (services st)
                             \<lparr>Name = srvName, Endpoint = ep, Status = '''', Routes = [],
                              PrivateRoutes = [], EventRoutes = [], Load = 0\<rparr> of
                        (svcs, changed) \<Rightarrow> (st\<lparr>services := svcs\<rparr>, changed)))
         in (feedbackDelete ep st1, found1)))"

definition onTick :: "'svc registry \<Rightarrow> 'svc listener \<Rightarrow> Time \<Rightarrow> 'svc listener" where
  "onTick ops st now =
     (let since = now - serviceTimeout (config (upstreamer st));
          (st1, foundOutdated) =
             foldl (removeOutdated ops) (st, False) (outdatedEndpoints ops (services st) since)
      in if foundOutdated then resync ops st1 else st1)"

definition onHello :: "'svc registry \<Rightarrow> 'svc listener \<Rightarrow> ping \<Rightarrow> 'svc listener" where
  "onHello ops st sp =
     (let (svcs, changed) = handleAddServicePing ops (services st) sp;
          st1 = st\<lparr>services := svcs\<rparr>;
          st2 = (if changed then resync ops st1 else st1)
      in if requiredCount st2 > 0 \<and> \<not> requiredNotifSent st2
         then (let st3 = (case requiredSeen st2 (Name sp) of
                            Some False \<Rightarrow>
                              st2\<lparr>requiredSeen := (requiredSeen st2)(Name sp \<mapsto> True),
                                  requiredReady := requiredReady st2 + 1\<rparr>
                          | Some True \<Rightarrow> st2
                          | None \<Rightarrow> st2)
               in if requiredReady st3 = requiredCount st3
                  then closeReady (st3\<lparr>requiredNotifSent := True\<rparr>)
                  else st3)
         else st2)"

definition onGoodbye :: "'svc registry \<Rightarrow> 'svc listener \<Rightarrow> ping \<Rightarrow> 'svc listener" where
  "onGoodbye ops st sp =
     (let (svcs, changed) = handleRemoveServicePing ops (services st) sp;
          st1 = st\<lparr>services := svcs\<rparr>
      in if changed then feedbackDelete (Endpoint sp) (resync ops st1) else st1)"

text \<open>What one round of the \<open>select\<close> receives: a tick with the time it is handled at,
  a publication (\<open>None\<close> when it does not decode as a ping), an error of the
  subscription with its text, or the end of the context.\<close>

datatype listener_select =
    Tick Time
  | Publication "ping option"
  | SubscriptionError string
  | ContextDone

definition onPublication :: "'svc registry \<Rightarrow> 'svc listener \<Rightarrow> ping option \<Rightarrow> 'svc listener" where
  "onPublication ops st pub =
     (case pub of
        None \<Rightarrow> st
      | Some decoded \<Rightarrow>
          (let sp = overrideEndpoint (config (upstreamer st)) decoded
           in if Status sp = serviceStatusHello then onHello ops st sp
              else if Status sp = serviceStatusGoodbye then onGoodbye ops st sp
              else st))"

definition listenServiceRound :: "'svc registry \<Rightarrow> 'svc listener \<Rightarrow> listener_select
    \<Rightarrow> 'svc listener" where
  "listenServiceRound ops st sel =
     (if status st \<noteq> Listening then st
      else (case sel of
              Tick now \<Rightarrow> onTick ops st now
            | Publication pub \<Rightarrow> onPublication ops st pub
            | SubscriptionError err \<Rightarrow>
                if err = ''nats: invalid connection'' then st\<lparr>status := ProcessExited\<rparr> else st
            | ContextDone \<Rightarrow> st\<lparr>status := ListenerReturned\<rparr>))"

definition listenService :: "'svc registry \<Rightarrow> Upstreamer \<Rightarrow> listener_select list
    \<Rightarrow> 'svc listener" where
  "listenService ops c sels = foldl (listenServiceRound ops) (listenServiceStart ops c) sels"

section \<open>Push sessions\<close>

subsection \<open>Events, filters, requests and frames\<close>

text \<open>
  The types of the \<open>elemental\<close> library that \<open>PushSession\<close> handles. An event has an
  identity, a type, a timestamp and a payload. A push filter is an opaque predicate,
  \<open>IsFilteredOut identity type\<close>, and \<open>Duplicate\<close> returns a copy, which is the
  same predicate. An operation is one of the seven that \<open>listenToAPIRequest\<close>
  dispatches, or any other value of the string type \<open>elemental.Operation\<close>.
\<close>

record Event =
  Identity :: string
  Type :: string
  Timestamp :: Time
  Entity :: string

datatype PushFilter = PushFilter (IsFilteredOut: "string \<Rightarrow> string \<Rightarrow> bool")

definition Duplicate :: "PushFilter \<Rightarrow> PushFilter" where
  "Duplicate f = PushFilter (IsFilteredOut f)"

datatype Operation =
    OperationRetrieveMany
  | OperationRetrieve
  | OperationCreate
  | OperationUpdate
  | OperationDelete
  | OperationInfo
  | OperationPatch
  | OperationOther string

record Request =
  RequestID :: string
  Operation :: Operation
  Username :: string
  Password :: string

record Response =
  Request :: "Request option"

definition NewResponse :: Response where
  "NewResponse = \<lparr>Request = None\<rparr>"

record Error =
  Title :: string
  Description :: string
  Subject :: string
  Code :: int

definition NewError :: "string \<Rightarrow> string \<Rightarrow> string \<Rightarrow> int \<Rightarrow> Error" where
  "NewError title description subject code =
     \<lparr>Title = title, Description = description, Subject = subject, Code = code\<rparr>"

definition StatusInternalServerError :: int where
  "StatusInternalServerError = 500"

text \<open>What a dispatcher hands back to its handler is opaque here.\<close>

type_synonym Context = string

datatype frame =
    EventFrame Event
  | ErrorFrame Response Error
  | ResponseFrame Response Context

subsection \<open>The socket\<close>

text \<open>
  The socket is the list of frames sent on it so far, whether \<open>Close\<close> was called, and
  whether the peer is gone. \<open>websocket.JSON.Send\<close> returns an error (\<open>None\<close>) on a
  closed or broken socket and otherwise appends one frame.
\<close>

record websocket =
  sent :: "frame list"
  isClosed :: bool
  peerGone :: bool

definition JSON_Send :: "websocket \<Rightarrow> frame \<Rightarrow> websocket option" where
  "JSON_Send ws f =
     (if isClosed ws \<or> peerGone ws then None else Some (ws\<lparr>sent := sent ws @ [f]\<rparr>))"

definition Close :: "websocket \<Rightarrow> websocket" where
  "Close ws = ws\<lparr>isClosed := True\<rparr>"

text \<open>
  Modelled from the spec: \<open>writeWebSocketError\<close> and \<open>writeWebsocketResponse\<close> are
  called by the handlers and declared in a file that is not among the sources. Each
  writes its response to the socket as one frame and returns nothing, so a failed
  send is not reported.
\<close>

definition writeWebSocketError :: "websocket \<Rightarrow> Response \<Rightarrow> Error \<Rightarrow> websocket" where
  "writeWebSocketError ws response err =
     (case JSON_Send ws (ErrorFrame response err) of None \<Rightarrow> ws | Some ws' \<Rightarrow> ws')"

definition writeWebsocketResponse :: "websocket \<Rightarrow> Response \<Rightarrow> Context \<Rightarrow> websocket" where
  "writeWebsocketResponse ws response ctx =
     (case JSON_Send ws (ResponseFrame response ctx) of None \<Rightarrow> ws | Some ws' \<Rightarrow> ws')"

subsection \<open>The session\<close>

datatype pushSessionType = pushSessionTypeEvent | pushSessionTypeAPI

datatype callback = Callback string

text \<open>
  The fields of \<open>PushSession\<close>. A channel is the list of the values sent on it and not
  yet received, oldest first; a channel of signals is the number of them. The
  unbuffered \<open>events\<close> is such a list too: a sender waits there for the writer, so
  the writer receives the events in the order of their sends. \<open>unregistered\<close> counts
  the calls of the unregister callback. The configuration is not a field: the
  dispatchers that use it are parameters of the handlers.
\<close>

record PushSession =
  Parameters :: "string \<rightharpoonup> string"
  events :: "Event list"
  processorFinder :: "callback option"
  pushEventsFunc :: "callback option"
  requests :: "Request list"
  filters :: "PushFilter option list"
  socket :: websocket
  startTime :: Time
  stopAll :: nat
  stopRead :: nat
  stopWrite :: nat
  sType :: pushSessionType
  unregisterFunc :: "callback option"
  sessionFilter :: "PushFilter option"
  unregistered :: nat

definition newSession :: "websocket \<Rightarrow> pushSessionType \<Rightarrow> (string \<rightharpoonup> string) \<Rightarrow> Time
    \<Rightarrow> callback option \<Rightarrow> callback option \<Rightarrow> callback option \<Rightarrow> PushSession" where
  "newSession ws t parameters now unregister finder pushEvents =
     \<lparr>Parameters = parameters,
      events = [],
      processorFinder = finder,
      pushEventsFunc = pushEvents,
      requests = [],
      filters = [],
      socket = ws,
      startTime = now,
      stopAll = 0,
      stopRead = 0,
      stopWrite = 0,
      sType = t,
      unregisterFunc = unregister,
      sessionFilter = None,
      unregistered = 0\<rparr>"

definition newPushSession :: "websocket \<Rightarrow> (string \<rightharpoonup> string) \<Rightarrow> Time \<Rightarrow> callback option
    \<Rightarrow> PushSession" where
  "newPushSession ws parameters now unregister =
     newSession ws pushSessionTypeEvent parameters now unregister None None"

definition newAPISession :: "websocket \<Rightarrow> (string \<rightharpoonup> string) \<Rightarrow> Time \<Rightarrow> callback option
    \<Rightarrow> callback option \<Rightarrow> callback option \<Rightarrow> PushSession" where
  "newAPISession ws parameters now unregister finder pushEvents =
     newSession ws pushSessionTypeAPI parameters now unregister finder pushEvents"

text \<open>\<open>url.Values.Get\<close> returns the empty string for a missing key.\<close>

definition Get :: "(string \<rightharpoonup> string) \<Rightarrow> string \<Rightarrow> string" where
  "Get values k = (case values k of None \<Rightarrow> '''' | Some v \<Rightarrow> v)"

definition Before :: "Time \<Rightarrow> Time \<Rightarrow> bool" where
  "Before t u = (t < u)"

fun DirectPush :: "PushSession \<Rightarrow> Event list \<Rightarrow> PushSession" where
  "DirectPush s [] = s"
| "DirectPush s (event # rest) =
     (if Before (Timestamp event) (startTime s) then DirectPush s rest
      else DirectPush (s\<lparr>events := events s @ [event]\<rparr>) rest)"

definition currentFilter :: "PushSession \<Rightarrow> PushFilter option" where
  "currentFilter s =
     (case sessionFilter s of None \<Rightarrow> None | Some f \<Rightarrow> Some (Duplicate f))"

definition setCurrentFilter :: "PushSession \<Rightarrow> PushFilter option \<Rightarrow> PushSession" where
  "setCurrentFilter s f = s\<lparr>sessionFilter := f\<rparr>"

definition close :: "PushSession \<Rightarrow> PushSession" where
  "close s = s\<lparr>stopAll := stopAll s + 1\<rparr>"

subsection \<open>The loops\<close>

text \<open>
  Each loop is a function of the session and of a schedule: the list of what its
  successive rounds do. A loop ends \<open>Finished\<close> when it returns, \<open>Panicking\<close> when
  it panics, and \<open>Running\<close> when the schedule is used up while it still waits. A
  round whose branch of the \<open>select\<close> is not ready takes no branch.
\<close>

datatype loop_state = Running | Finished | Panicking

text \<open>One round of a reader: \<open>Receive\<close> fails, or it yields a value that the
  \<open>select\<close> then either sends on the channel of capacity 8 or drops for a stop
  signal.\<close>

datatype 'a read_round = ReceiveFails | ReceiveThenSend 'a | ReceiveThenStop 'a

fun readRequests :: "PushSession \<Rightarrow> Request read_round list \<Rightarrow> PushSession \<times> loop_state" where
  "readRequests s [] = (s, Running)"
| "readRequests s (ReceiveFails # rest) = (s\<lparr>stopAll := stopAll s + 1\<rparr>, Finished)"
| "readRequests s (ReceiveThenSend request # rest) =
     (if length (requests s) < 8
      then readRequests (s\<lparr>requests := requests s @ [request]\<rparr>) rest
      else if stopRead s > 0 then (s\<lparr>stopRead := stopRead s - 1\<rparr>, Finished)
      else (s, Running))"
| "readRequests s (ReceiveThenStop request # rest) =
     (if stopRead s > 0 then (s\<lparr>stopRead := stopRead s - 1\<rparr>, Finished)
      else if length (requests s) < 8
      then readRequests (s\<lparr>requests := requests s @ [request]\<rparr>) rest
      else (s, Running))"

fun readFilters :: "PushSession \<Rightarrow> PushFilter option read_round list
    \<Rightarrow> PushSession \<times> loop_state" where
  "readFilters s [] = (s, Running)"
| "readFilters s (ReceiveFails # rest) = (s\<lparr>stopAll := stopAll s + 1\<rparr>, Finished)"
| "readFilters s (ReceiveThenSend f # rest) =
     (if length (filters s) < 8
      then readFilters (s\<lparr>filters := filters s @ [f]\<rparr>) rest
      else if stopRead s > 0 then (s\<lparr>stopRead := stopRead s - 1\<rparr>, Finished)
      else (s, Running))"
| "readFilters s (ReceiveThenStop f # rest) =
     (if stopRead s > 0 then (s\<lparr>stopRead := stopRead s - 1\<rparr>, Finished)
      else if length (filters s) < 8
      then readFilters (s\<lparr>filters := filters s @ [f]\<rparr>) rest
      else (s, Running))"

text \<open>The branch \<open>case event := <-s.events\<close> of \<open>write\<close>, for the event received.\<close>

definition writeEvent :: "PushSession \<Rightarrow> Event \<Rightarrow> PushSession \<times> loop_state" where
  "writeEvent s event =
     (let f = currentFilter s
      in if f \<noteq> None \<and> IsFilteredOut (the f) (Identity event) (Type event)
         then (s, Running)
         else (case JSON_Send (socket s) (EventFrame event) of
                 None \<Rightarrow> (s\<lparr>stopAll := stopAll s + 1\<rparr>, Finished)
               | Some ws \<Rightarrow> (s\<lparr>socket := ws\<rparr>, Running)))"

text \<open>The loop of \<open>write\<close>, under the name \<open>write_loop\<close>.\<close>

datatype write_round = FromEvents | FromStopWrite

fun write_loop :: "PushSession \<Rightarrow> write_round list \<Rightarrow> PushSession \<times> loop_state" where
  "write_loop s [] = (s, Running)"
| "write_loop s (FromEvents # rest) =
     (case events s of
        [] \<Rightarrow> write_loop s rest
      | event # waiting \<Rightarrow>
          (case writeEvent (s\<lparr>events := waiting\<rparr>) event of
             (s', Running) \<Rightarrow> write_loop s' rest
           | (s', Finished) \<Rightarrow> (s', Finished)
           | (s', Panicking) \<Rightarrow> (s', Panicking)))"
| "write_loop s (FromStopWrite # rest) =
     (if stopWrite s = 0 then write_loop s rest
      else (s\<lparr>stopWrite := stopWrite s - 1\<rparr>, Finished))"

text \<open>The deferred function of both control loops. Calling a nil
  \<open>unregisterFunc\<close> panics.\<close>

definition deferred :: "PushSession \<Rightarrow> PushSession \<times> loop_state" where
  "deferred s =
     (let s1 = s\<lparr>stopRead := stopRead s + 1\<rparr>;
          s2 = s1\<lparr>stopWrite := stopWrite s1 + 1\<rparr>
      in case unregisterFunc s2 of
           None \<Rightarrow> (s2, Panicking)
         | Some f \<Rightarrow>
             (s2\<lparr>unregistered := unregistered s2 + 1,
                 socket := Close (socket s2),
                 processorFinder := None,
                 pushEventsFunc := None,
                 unregisterFunc := None\<rparr>, Finished))"

datatype control_round = FromInput | FromStopAll

fun listenToPushEvents :: "PushSession \<Rightarrow> control_round list \<Rightarrow> PushSession \<times> loop_state" where
  "listenToPushEvents s [] = (s, Running)"
| "listenToPushEvents s (FromInput # rest) =
     (case filters s of
        [] \<Rightarrow> listenToPushEvents s rest
      | f # waiting \<Rightarrow> listenToPushEvents (setCurrentFilter (s\<lparr>filters := waiting\<rparr>) f) rest)"
| "listenToPushEvents s (FromStopAll # rest) =
     (if stopAll s = 0 then listenToPushEvents s rest
      else deferred (s\<lparr>stopAll := stopAll s - 1\<rparr>))"

subsection \<open>The operation handlers\<close>

text \<open>
  The seven dispatchers are not among the sources and run code of the application:
  they are parameters. A dispatcher panics with a value (given as \<open>%v\<close> prints it),
  returns an error, or returns a context.
\<close>

datatype dispatched = DispatchPanics string | DispatchFails Error | DispatchReturns Context

record dispatchers =
  dispatchRetrieveManyOperation :: "Request \<Rightarrow> dispatched"
  dispatchRetrieveOperation :: "Request \<Rightarrow> dispatched"
  dispatchCreateOperation :: "Request \<Rightarrow> dispatched"
  dispatchUpdateOperation :: "Request \<Rightarrow> dispatched"
  dispatchDeleteOperation :: "Request \<Rightarrow> dispatched"
  dispatchInfoOperation :: "Request \<Rightarrow> dispatched"
  dispatchPatchOperation :: "Request \<Rightarrow> dispatched"

text \<open>\<open>recovered\<close> is what \<open>recover()\<close> returns: the value of the panic under way, or
  nil.\<close>

definition handleEventualPanic :: "PushSession \<Rightarrow> Response \<Rightarrow> string option \<Rightarrow> PushSession" where
  "handleEventualPanic s response recovered =
     (case recovered of
        None \<Rightarrow> s
      | Some r \<Rightarrow>
          s\<lparr>socket :=
              writeWebSocketError (socket s) response
                (NewError ''Internal Server Error'' r ''bahamut'' StatusInternalServerError)\<rparr>)"

text \<open>The body that the seven handlers share, with the deferred
  \<open>handleEventualPanic\<close> run at each way out.\<close>

definition handleOperation :: "(Request \<Rightarrow> dispatched) \<Rightarrow> PushSession \<Rightarrow> Request
    \<Rightarrow> PushSession" where
  "handleOperation dispatch s request =
     (let response = NewResponse\<lparr>Request := Some request\<rparr>
      in case dispatch request of
           DispatchPanics r \<Rightarrow> handleEventualPanic s response (Some r)
         | DispatchFails err \<Rightarrow>
             handleEventualPanic
               (s\<lparr>socket := writeWebSocketError (socket s) response err\<rparr>) response None
         | DispatchReturns ctx \<Rightarrow>
             handleEventualPanic
               (s\<lparr>socket := writeWebsocketResponse (socket s) response ctx\<rparr>) response None)"

definition handleRetrieveMany :: "dispatchers \<Rightarrow> PushSession \<Rightarrow> Request \<Rightarrow> PushSession" where
  "handleRetrieveMany d = handleOperation (dispatchRetrieveManyOperation d)"

definition handleRetrieve :: "dispatchers \<Rightarrow> PushSession \<Rightarrow> Request \<Rightarrow> PushSession" where
  "handleRetrieve d = handleOperation (dispatchRetrieveOperation d)"

definition handleCreate :: "dispatchers \<Rightarrow> PushSession \<Rightarrow> Request \<Rightarrow> PushSession" where
  "handleCreate d = handleOperation (dispatchCreateOperation d)"

definition handleUpdate :: "dispatchers \<Rightarrow> PushSession \<Rightarrow> Request \<Rightarrow> PushSession" where
  "handleUpdate d = handleOperation (dispatchUpdateOperation d)"

definition handleDelete :: "dispatchers \<Rightarrow> PushSession \<Rightarrow> Request \<Rightarrow> PushSession" where
  "handleDelete d = handleOperation (dispatchDeleteOperation d)"

definition handleInfo :: "dispatchers \<Rightarrow> PushSession \<Rightarrow> Request \<Rightarrow> PushSession" where
  "handleInfo d = handleOperation (dispatchInfoOperation d)"

definition handlePatch :: "dispatchers \<Rightarrow> PushSession \<Rightarrow> Request \<Rightarrow> PushSession" where
  "handlePatch d = handleOperation (dispatchPatchOperation d)"

text \<open>
  The branch \<open>case request := <-s.requests\<close> of \<open>listenToAPIRequest\<close>: the token
  of the session is copied into the request, and the handler of the operation is
  started. The handler is started with \<open>go\<close>; here it runs to its end at once, so
  the frames of two handlers are not interleaved.
\<close>

definition backportToken :: "PushSession \<Rightarrow> Request \<Rightarrow> Request" where
  "backportToken s request =
     (let t = Get (Parameters s) ''token''
      in if t \<noteq> '''' then request\<lparr>Username := ''Bearer'', Password := t\<rparr> else request)"

definition onRequest :: "dispatchers \<Rightarrow> PushSession \<Rightarrow> Request \<Rightarrow> PushSession" where
  "onRequest d s received =
     (let request = backportToken s received
      in case Operation request of
           OperationRetrieveMany \<Rightarrow> handleRetrieveMany d s request
         | OperationRetrieve \<Rightarrow> handleRetrieve d s request
         | OperationCreate \<Rightarrow> handleCreate d s request
         | OperationUpdate \<Rightarrow> handleUpdate d s request
         | OperationDelete \<Rightarrow> handleDelete d s request
         | OperationInfo \<Rightarrow> handleInfo d s request
         | OperationPatch \<Rightarrow> handlePatch d s request
         | OperationOther name \<Rightarrow> s)"

fun listenToAPIRequest :: "dispatchers \<Rightarrow> PushSession \<Rightarrow> control_round list
    \<Rightarrow> PushSession \<times> loop_state" where
  "listenToAPIRequest d s [] = (s, Running)"
| "listenToAPIRequest d s (FromInput # rest) =
     (case requests s of
        [] \<Rightarrow> listenToAPIRequest d s rest
      | request # waiting \<Rightarrow>
          listenToAPIRequest d (onRequest d (s\<lparr>requests := waiting\<rparr>) request) rest)"
| "listenToAPIRequest d s (FromStopAll # rest) =
     (if stopAll s = 0 then listenToAPIRequest d s rest
      else deferred (s\<lparr>stopAll := stopAll s - 1\<rparr>))"

definition listen :: "dispatchers \<Rightarrow> PushSession \<Rightarrow> control_round list
    \<Rightarrow> PushSession \<times> loop_state" where
  "listen d s rounds =
     (case sType s of
        pushSessionTypeAPI \<Rightarrow> listenToAPIRequest d s rounds
      | pushSessionTypeEvent \<Rightarrow> listenToPushEvents s rounds)"

section \<open>Notions used to state the properties\<close>

text \<open>The names of the services whose hello ping is among the given rounds of the
  listener, and the rounds that end the listener: the end of the context and the one
  error of the subscription that is fatal.\<close>

fun helloName :: "listener_select \<Rightarrow> string option" where
  "helloName (Publication (Some p)) =
     (if Status p = serviceStatusHello then Some (Name p) else None)"
| "helloName (Publication None) = None"
| "helloName (Tick now) = None"
| "helloName (SubscriptionError err) = None"
| "helloName ContextDone = None"

definition helloNames :: "listener_select list \<Rightarrow> string set" where
  "helloNames sels = set (List.map_filter helloName sels)"


text \<open>Whether the installed filter, if any, reports the event as filtered out.\<close>

definition filteredOut :: "PushFilter option \<Rightarrow> Event \<Rightarrow> bool" where
  "filteredOut installed event =
     (case installed of
        None \<Rightarrow> False
      | Some f \<Rightarrow> IsFilteredOut f (Identity event) (Type event))"

text \<open>The dispatcher that belongs to an operation with a handler.\<close>

fun dispatcherFor :: "dispatchers \<Rightarrow> Operation \<Rightarrow> (Request \<Rightarrow> dispatched) option" where
  "dispatcherFor d OperationRetrieveMany = Some (dispatchRetrieveManyOperation d)"
| "dispatcherFor d OperationRetrieve = Some (dispatchRetrieveOperation d)"
| "dispatcherFor d OperationCreate = Some (dispatchCreateOperation d)"
| "dispatcherFor d OperationUpdate = Some (dispatchUpdateOperation d)"
| "dispatcherFor d OperationDelete = Some (dispatchDeleteOperation d)"
| "dispatcherFor d OperationInfo = Some (dispatchInfoOperation d)"
| "dispatcherFor d OperationPatch = Some (dispatchPatchOperation d)"
| "dispatcherFor d (OperationOther name) = None"

text \<open>
  The ways a session comes to its end, each by a signal on \<open>stopAll\<close>: the reader's
  \<open>Receive\<close> fails (the peer closed the socket, or a read error), the writer's
  \<open>Send\<close> of an event fails, or \<open>close\<close> is called. \<open>afterCause\<close> runs the code of
  the cause on the session.
\<close>

datatype termination_cause = ReadFails | WriteFails Event | InternalStop

definition afterCause :: "termination_cause \<Rightarrow> PushSession \<Rightarrow> PushSession" where
  "afterCause cause s =
     (case cause of
        ReadFails \<Rightarrow>
          (case sType s of
             pushSessionTypeEvent \<Rightarrow> fst (readFilters s [ReceiveFails])
           | pushSessionTypeAPI \<Rightarrow> fst (readRequests s [ReceiveFails]))
      | WriteFails event \<Rightarrow>
          fst (writeEvent (s\<lparr>socket := (socket s)\<lparr>peerGone := True\<rparr>\<rparr>) event)
      | InternalStop \<Rightarrow> close s)"

text \<open>What the deferred function of a control loop leaves behind: one more call of
  the unregister callback, one more signal for the reader and for the writer, the
  socket closed, and no callback retained.\<close>

definition cleanedUp :: "PushSession \<Rightarrow> PushSession \<Rightarrow> bool" where
  "cleanedUp s s' \<longleftrightarrow>
     unregistered s' = unregistered s + 1 \<and>
     stopRead s' = stopRead s + 1 \<and>
     stopWrite s' = stopWrite s + 1 \<and>
     isClosed (socket s') \<and>
     processorFinder s' = None \<and> pushEventsFunc s' = None \<and> unregisterFunc s' = None"

text \<open>
  The state of the ready signal that goes with the set \<open>names\<close> of the services that
  have said hello, for the required services \<open>rs\<close>: the signal is closed, once, exactly
  if every required service is among the names, and until then the listener has
  counted the required services among the names and marked each of them as seen.
\<close>

definition readyTracking :: "string list \<Rightarrow> string set \<Rightarrow> 'svc listener \<Rightarrow> bool" where
  "readyTracking rs names st \<longleftrightarrow>
     requiredCount st = length rs \<and>
     status st \<noteq> ListenerPanicked \<and>
     requiredNotifSent st = (set rs \<subseteq> names) \<and>
     readyCloses st = (if set rs \<subseteq> names then 1 else 0) \<and>
     (\<not> set rs \<subseteq> names \<longrightarrow>
        requiredReady st = card (set rs \<inter> names) \<and>
        (\<forall>n. requiredSeen st n = (if n \<in> set rs then Some (n \<in> names) else None)))"

section \<open>Example inputs\<close>

text \<open>An instance of the parameter \<open>getTargetIdentity\<close> for unversioned paths: the first
  segment of the path, after a leading slash if there is one.\<close>

fun firstSegment :: "string \<Rightarrow> string" where
  "firstSegment [] = []"
| "firstSegment (ch # rest) =
     (if ch = CHR ''/'' then takeWhile (\<lambda>x. x \<noteq> CHR ''/'') rest
      else takeWhile (\<lambda>x. x \<noteq> CHR ''/'') (ch # rest))"

definition exampleConfig :: upstreamConfig where
  "exampleConfig =
     \<lparr>requiredServices = [''accounts'', ''billing''],
      serviceTimeout = 20000000000,
      feedbackLoopSamples = 5,
      exposePrivateAPIs = False,
      eventsAPIs = [],
      overrideEndpointAddress = ''10.0.0.1''\<rparr>"

definition endpointA :: endpointInfo where
  "endpointA = \<lparr>address = ''10.0.0.1:443'', lastLoad = 1 / 5\<rparr>"

definition endpointB :: endpointInfo where
  "endpointB = \<lparr>address = ''10.0.0.2:443'', lastLoad = 4 / 5\<rparr>"

text \<open>Two endpoints serve \<open>objects\<close>, one serves \<open>users\<close>; the first endpoint has
  answered in 100 microseconds on average, the second in 900.\<close>

definition exampleUpstreamer :: Upstreamer where
  "exampleUpstreamer =
     \<lparr>apis = (\<lambda>identity. if identity = ''objects'' then [endpointB, endpointA]
                         else if identity = ''users'' then [endpointB] else []),
      config = exampleConfig,
      feedbackLoop =
        [''10.0.0.1:443'' \<mapsto> \<lparr>capacity = 5, samples = [90, 110], nextIdx = 2\<rparr>,
         ''10.0.0.2:443'' \<mapsto> \<lparr>capacity = 5, samples = [900], nextIdx = 1\<rparr>]\<rparr>"

definition exampleRandomizer :: randomizer where
  "exampleRandomizer = \<lparr>pick = (\<lambda>l. (0, l - 1)), Intn = (\<lambda>n. n div 2)\<rparr>"

text \<open>An instance of the registry parameters: the registry is the list of the
  registered endpoint addresses, and nothing is ever outdated.\<close>

definition exampleRegistry :: "string list registry" where
  "exampleRegistry =
     \<lparr>emptyServices = [],
      handleAddServicePing =
        (\<lambda>svcs p. if Endpoint p \<in> set svcs then (svcs, False) else (svcs @ [Endpoint p], True)),
      handleRemoveServicePing =
        (\<lambda>svcs p. (removeAll (Endpoint p) svcs, Endpoint p \<in> set svcs)),
      resyncRoutes =
        (\<lambda>svcs private events identity. map (\<lambda>a. \<lparr>address = a, lastLoad = 0\<rparr>) svcs),
      outdatedEndpoints = (\<lambda>svcs since. [])\<rparr>"

definition helloPing :: "string \<Rightarrow> string \<Rightarrow> ping" where
  "helloPing name endpoint =
     \<lparr>Name = name, Endpoint = endpoint, Status = ''hello'', Routes = [''objects''],
      PrivateRoutes = [], EventRoutes = [], Load = 1 / 5\<rparr>"

definition exampleSocket :: websocket where
  "exampleSocket = \<lparr>sent = [], isClosed = False, peerGone = False\<rparr>"

definition eventAt :: "string \<Rightarrow> Time \<Rightarrow> Event" where
  "eventAt identity t = \<lparr>Identity = identity, Type = ''create'', Timestamp = t, Entity = ''{}''\<rparr>"

text \<open>An event session started at time 100, and a filter that suppresses the
  identity \<open>I\<close>.\<close>

definition exampleSession :: PushSession where
  "exampleSession =
     newPushSession exampleSocket Map.empty 100 (Some (Callback ''unregister''))"


text \<open>An API session with a token, dispatchers of which the one for \<open>create\<close> panics,
  and three requests.\<close>

definition exampleAPISession :: PushSession where
  "exampleAPISession =
     newAPISession exampleSocket [''token'' \<mapsto> ''abc''] 100 (Some (Callback ''unregister''))
       (Some (Callback ''finder'')) (Some (Callback ''push''))"

definition exampleDispatchers :: dispatchers where
  "exampleDispatchers =
     \<lparr>dispatchRetrieveManyOperation = (\<lambda>request. DispatchReturns ''many''),
      dispatchRetrieveOperation = (\<lambda>request. DispatchReturns ''one''),
      dispatchCreateOperation = (\<lambda>request. DispatchPanics ''boom''),
      dispatchUpdateOperation = (\<lambda>request. DispatchReturns ''updated''),
      dispatchDeleteOperation = (\<lambda>request. DispatchReturns ''deleted''),
      dispatchInfoOperation = (\<lambda>request. DispatchReturns ''info''),
      dispatchPatchOperation = (\<lambda>request. DispatchReturns ''patched'')\<rparr>"

definition requestFor :: "string \<Rightarrow> Operation \<Rightarrow> Request" where
  "requestFor rid operation =
     \<lparr>RequestID = rid, Operation = operation, Username = '''', Password = ''''\<rparr>"

definition createRequest :: Request where
  "createRequest = requestFor ''1'' OperationCreate"

definition retrieveRequest :: Request where
  "retrieveRequest = requestFor ''2'' OperationRetrieve"

definition headRequest :: Request where
  "headRequest = requestFor ''3'' (OperationOther ''head'')"

text \<open>The API session after its reader has received the given requests.\<close>

definition exampleAPISessionWith :: "Request list \<Rightarrow> PushSession" where
  "exampleAPISessionWith received =
     fst (readRequests exampleAPISession (map ReceiveThenSend received))"

section \<open>Properties of \<open>Upstream\<close>\<close>

text \<open>
  Claim C6. When the route identity of the path has no endpoint in the route table,
  \<open>Upstream\<close> returns the empty address and the load \<open>0\<close>, and when it has exactly
  one endpoint, \<open>Upstream\<close> returns the address and the last load of that endpoint,
  whatever the randomizer gives.
\<close>

theorem Upstream_none_or_one:
  "(apis c (gti path) = [] \<longrightarrow> Upstream gti c r path = Returned ('''', 0)) \<and>
   (\<forall>ep. apis c (gti path) = [ep] \<longrightarrow>
      Upstream gti c r path = Returned (address ep, lastLoad ep))"
  by (simp add: Upstream_def)

theorem Upstream_none_or_one_witness:
  "apis exampleUpstreamer (firstSegment ''/tasks'') = [] \<and>
   Upstream firstSegment exampleUpstreamer exampleRandomizer ''/tasks'' = Returned ('''', 0) \<and>
   apis exampleUpstreamer (firstSegment ''/users/42'') = [endpointB] \<and>
   Upstream firstSegment exampleUpstreamer exampleRandomizer ''/users/42'' =
     Returned (''10.0.0.2:443'', 4 / 5)"
proof -
  have none: "apis exampleUpstreamer (firstSegment ''/tasks'') = []"
    by (simp add: exampleUpstreamer_def)
  have one: "apis exampleUpstreamer (firstSegment ''/users/42'') = [endpointB]"
    by (simp add: exampleUpstreamer_def)
  have "Upstream firstSegment exampleUpstreamer exampleRandomizer ''/tasks'' = Returned ('''', 0)"
    using Upstream_none_or_one [of exampleUpstreamer firstSegment "''/tasks''" exampleRandomizer]
      none by blast
  moreover have "Upstream firstSegment exampleUpstreamer exampleRandomizer ''/users/42'' =
      Returned (address endpointB, lastLoad endpointB)"
    using Upstream_none_or_one [of exampleUpstreamer firstSegment "''/users/42''"
        exampleRandomizer] one by blast
  ultimately show ?thesis
    using none one by (simp add: endpointB_def)
qed

subsection \<open>The weighted choice between two candidates\<close>





text \<open>Every integer from \<open>0\<close> to \<open>m\<close> is what some randomizer within the contract
  returns for \<open>Intn (m + 1)\<close>: the range of the draw is no smaller than stated.\<close>

lemma every_draw_admissible:
  assumes "0 \<le> d" "d \<le> m"
  shows "Intn_contract (r\<lparr>Intn := (\<lambda>n. if n = m + 1 then d else 0)\<rparr>) \<and>
         Intn (r\<lparr>Intn := (\<lambda>n. if n = m + 1 then d else 0)\<rparr>) (m + 1) = d"
  using assms by (simp add: Intn_contract_def)





section \<open>Properties of the feedback loop\<close>

lemma Microseconds_zero_iff: "Microseconds d = 0 \<longleftrightarrow> \<bar>d\<bar> < 1000"
  by (auto simp: Microseconds_def div_eq_0_iff)

text \<open>
  Claim C2, as the code has it. \<open>Collect\<close> leaves the feedback state unchanged when
  the elapsed time is shorter than one microsecond, which includes zero. With an
  elapsed time of one microsecond or more, for an address never collected before it
  stores a fresh empty moving average and drops the sample, so that the measure of
  the address is still \<open>0\<close>; for an address already present it adds the sample, in
  whole microseconds, to the moving average of the address.
\<close>

theorem Collect_sample_cases:
  "(\<bar>elapsed\<bar> < 1000 \<longrightarrow> Collect_sample c a elapsed = c) \<and>
   (1000 \<le> \<bar>elapsed\<bar> \<and> feedbackLoop c a = None \<longrightarrow>
      Collect_sample c a elapsed =
        c\<lparr>feedbackLoop :=
            (feedbackLoop c)(a \<mapsto> NewMovingAverage (feedbackLoopSamples (config c)))\<rparr> \<and>
      samples (NewMovingAverage (feedbackLoopSamples (config c))) = [] \<and>
      measure_address (Collect_sample c a elapsed) a = 0) \<and>
   (\<forall>ma. 1000 \<le> \<bar>elapsed\<bar> \<and> feedbackLoop c a = Some ma \<longrightarrow>
      Collect_sample c a elapsed =
        c\<lparr>feedbackLoop :=
            (feedbackLoop c)(a \<mapsto> Add ma (real_of_int (Microseconds elapsed)))\<rparr>)"
proof -
  have z: "Microseconds elapsed = 0 \<longleftrightarrow> \<bar>elapsed\<bar> < 1000"
    by (rule Microseconds_zero_iff)
  show ?thesis
  proof (cases "\<bar>elapsed\<bar> < 1000")
    case True
    then show ?thesis using z by (simp add: Collect_sample_def)
  next
    case False
    then have nz: "Microseconds elapsed \<noteq> 0" using z by simp
    show ?thesis
      using False nz
      by (auto simp: Collect_sample_def Let_def measure_address_def NewMovingAverage_def
            Average_def)
  qed
qed

text \<open>The claim as written fails for an elapsed time of 500 nanoseconds: it is not
  zero, the address was never collected, and still no moving average is stored.\<close>

theorem Collect_sample_counterexample:
  "(500 :: Duration) \<noteq> 0 \<and>
   feedbackLoop (NewUpstreamer exampleConfig) ''10.0.0.1:443'' = None \<and>
   feedbackLoop (Collect_sample (NewUpstreamer exampleConfig) ''10.0.0.1:443'' 500)
     ''10.0.0.1:443'' = None"
  by (simp add: Collect_sample_def NewUpstreamer_def Microseconds_def)

theorem Collect_sample_cases_witness:
  "\<bar>500 :: Duration\<bar> < 1000 \<and>
   Collect_sample exampleUpstreamer ''10.0.0.9:443'' 500 = exampleUpstreamer \<and>
   1000 \<le> \<bar>250000 :: Duration\<bar> \<and>
   feedbackLoop exampleUpstreamer ''10.0.0.9:443'' = None \<and>
   feedbackLoop (Collect_sample exampleUpstreamer ''10.0.0.9:443'' 250000) ''10.0.0.9:443'' =
     Some \<lparr>capacity = 5, samples = [], nextIdx = 0\<rparr> \<and>
   measure_address (Collect_sample exampleUpstreamer ''10.0.0.9:443'' 250000)
     ''10.0.0.9:443'' = 0 \<and>
   feedbackLoop exampleUpstreamer ''10.0.0.2:443'' =
     Some \<lparr>capacity = 5, samples = [900], nextIdx = 1\<rparr> \<and>
   feedbackLoop (Collect_sample exampleUpstreamer ''10.0.0.2:443'' 250000) ''10.0.0.2:443'' =
     Some \<lparr>capacity = 5, samples = [900, 250], nextIdx = 2\<rparr>"
proof -
  have new: "feedbackLoop exampleUpstreamer ''10.0.0.9:443'' = None"
    by (simp add: exampleUpstreamer_def)
  have old: "feedbackLoop exampleUpstreamer ''10.0.0.2:443'' =
      Some \<lparr>capacity = 5, samples = [900], nextIdx = 1\<rparr>"
    by (simp add: exampleUpstreamer_def)
  have cfg: "feedbackLoopSamples (config exampleUpstreamer) = 5"
    by (simp add: exampleUpstreamer_def exampleConfig_def)
  have us: "Microseconds 250000 = 250"
    by (simp add: Microseconds_def)
  have short: "Collect_sample exampleUpstreamer ''10.0.0.9:443'' 500 = exampleUpstreamer"
    using Collect_sample_cases [of 500 exampleUpstreamer "''10.0.0.9:443''"] by simp
  have first: "Collect_sample exampleUpstreamer ''10.0.0.9:443'' 250000 =
      exampleUpstreamer\<lparr>feedbackLoop :=
        (feedbackLoop exampleUpstreamer)(''10.0.0.9:443'' \<mapsto> NewMovingAverage 5)\<rparr> \<and>
      measure_address (Collect_sample exampleUpstreamer ''10.0.0.9:443'' 250000)
        ''10.0.0.9:443'' = 0"
  proof -
    have big: "1000 \<le> \<bar>250000 :: Duration\<bar> \<and>
        feedbackLoop exampleUpstreamer ''10.0.0.9:443'' = None"
      using new by simp
    from Collect_sample_cases [of 250000 exampleUpstreamer "''10.0.0.9:443''"] big
    show ?thesis unfolding cfg by blast
  qed
  have later: "Collect_sample exampleUpstreamer ''10.0.0.2:443'' 250000 =
      exampleUpstreamer\<lparr>feedbackLoop :=
        (feedbackLoop exampleUpstreamer)(''10.0.0.2:443'' \<mapsto>
           Add \<lparr>capacity = 5, samples = [900], nextIdx = 1\<rparr> 250)\<rparr>"
    using Collect_sample_cases [of 250000 exampleUpstreamer "''10.0.0.2:443''"] old us
    by simp
  have first_eq: "Collect_sample exampleUpstreamer ''10.0.0.9:443'' 250000 =
      exampleUpstreamer\<lparr>feedbackLoop :=
        (feedbackLoop exampleUpstreamer)(''10.0.0.9:443'' \<mapsto> NewMovingAverage 5)\<rparr>"
    and first_measure: "measure_address
        (Collect_sample exampleUpstreamer ''10.0.0.9:443'' 250000) ''10.0.0.9:443'' = 0"
    using first by blast+
  show ?thesis
    using new old short first_measure
    by (simp add: first_eq later NewMovingAverage_def Add_def)
qed

section \<open>Properties of the listener\<close>

subsection \<open>The endpoint override\<close>

lemma overrideEndpoint_Name [simp]: "Name (overrideEndpoint cfg sp) = Name sp"
  by (simp add: overrideEndpoint_def split: sum.splits)

lemma overrideEndpoint_Status [simp]: "Status (overrideEndpoint cfg sp) = Status sp"
  by (simp add: overrideEndpoint_def split: sum.splits)

lemma IndexByte_None: "IndexByte s ch = None \<longleftrightarrow> ch \<notin> set s"
  by (simp add: IndexByte_def)

lemma LastIndexByte_append:
  assumes "ch \<notin> set p"
  shows "LastIndexByte (h @ ch # p) ch = Some (length h)"
proof -
  have "takeWhile (\<lambda>x. x \<noteq> ch) (rev p @ ch # rev h) = rev p"
    using assms by (subst takeWhile_tail) auto
  then show ?thesis by (simp add: LastIndexByte_def)
qed

lemma SplitHostPort_plain:
  assumes h: "set h \<inter> {CHR '':'', CHR ''['', CHR '']''} = {}"
    and p: "set p \<inter> {CHR '':'', CHR ''['', CHR '']''} = {}"
  shows "SplitHostPort (h @ '':'' @ p) = Inr (h, p)"
proof -
  have i: "LastIndexByte (h @ CHR '':'' # p) (CHR '':'') = Some (length h)"
    using p by (intro LastIndexByte_append) simp
  have first: "(h @ '':'' @ p) ! 0 \<noteq> CHR ''[''"
    using h by (cases h) auto
  show ?thesis
    using h p first
    by (auto simp: SplitHostPort_def i checkBrackets_def IndexByte_None Let_def)
qed

text \<open>An endpoint that does not split into a host and a port is left as it is.\<close>

lemma overrideEndpoint_unsplit:
  "SplitHostPort (Endpoint sp) = Inl err \<Longrightarrow> overrideEndpoint cfg sp = sp"
  by (simp add: overrideEndpoint_def)

text \<open>
  Claim C9. With a non-empty override configured, a ping whose endpoint splits into a
  host and a port gets the override as its host and keeps its port, and it is this
  ping that the listener hands to the handler of its status: a hello is handled, and
  so registered, under the overridden endpoint. The hello of \<open>192.168.1.2:8443\<close>
  under the override \<open>10.0.0.1\<close> is registered as \<open>10.0.0.1:8443\<close>, which the
  example after the theorem shows.
\<close>

theorem override_replaces_host:
  assumes ov: "overrideEndpointAddress (config (upstreamer st)) \<noteq> ''''"
    and sp: "SplitHostPort (Endpoint sp) = Inr (h, p)"
    and li: "status st = Listening"
  shows "overrideEndpoint (config (upstreamer st)) sp =
           sp\<lparr>Endpoint := overrideEndpointAddress (config (upstreamer st)) @ '':'' @ p\<rparr> \<and>
         (Status sp = serviceStatusHello \<longrightarrow>
            listenServiceRound ops st (Publication (Some sp)) =
              onHello ops st
                (sp\<lparr>Endpoint := overrideEndpointAddress (config (upstreamer st)) @ '':'' @ p\<rparr>)) \<and>
         (Status sp = serviceStatusGoodbye \<longrightarrow>
            listenServiceRound ops st (Publication (Some sp)) =
              onGoodbye ops st
                (sp\<lparr>Endpoint := overrideEndpointAddress (config (upstreamer st)) @ '':'' @ p\<rparr>))"
proof -
  have o: "overrideEndpoint (config (upstreamer st)) sp =
      sp\<lparr>Endpoint := overrideEndpointAddress (config (upstreamer st)) @ '':'' @ p\<rparr>"
    using ov sp by (simp add: overrideEndpoint_def)
  have ne: "serviceStatusHello \<noteq> serviceStatusGoodbye"
    by (simp add: serviceStatusHello_def serviceStatusGoodbye_def)
  show ?thesis
    using li ne by (auto simp: o listenServiceRound_def onPublication_def Let_def)
qed

lemma split_example: "SplitHostPort ''192.168.1.2:8443'' = Inr (''192.168.1.2'', ''8443'')"
  using SplitHostPort_plain [of "''192.168.1.2''" "''8443''"] by simp

lemma exampleStart:
  "listenServiceStart exampleRegistry (NewUpstreamer exampleConfig) =
     \<lparr>upstreamer = NewUpstreamer exampleConfig, services = [], requiredCount = 2,
      requiredReady = 0, requiredNotifSent = False,
      requiredSeen = [''accounts'' \<mapsto> False, ''billing'' \<mapsto> False],
      readyCloses = 0, status = Listening\<rparr>"
  by (simp add: listenServiceStart_def NewUpstreamer_def exampleConfig_def exampleRegistry_def
        Let_def)

theorem override_replaces_host_witness:
  "overrideEndpointAddress
     (config (upstreamer (listenServiceStart exampleRegistry (NewUpstreamer exampleConfig))))
     \<noteq> '''' \<and>
   SplitHostPort (Endpoint (helloPing ''accounts'' ''192.168.1.2:8443'')) =
     Inr (''192.168.1.2'', ''8443'') \<and>
   status (listenServiceStart exampleRegistry (NewUpstreamer exampleConfig)) = Listening \<and>
   Status (helloPing ''accounts'' ''192.168.1.2:8443'') = serviceStatusHello \<and>
   Endpoint (overrideEndpoint
     (config (upstreamer (listenServiceStart exampleRegistry (NewUpstreamer exampleConfig))))
     (helloPing ''accounts'' ''192.168.1.2:8443'')) = ''10.0.0.1:8443'' \<and>
   services (listenServiceRound exampleRegistry
     (listenServiceStart exampleRegistry (NewUpstreamer exampleConfig))
     (Publication (Some (helloPing ''accounts'' ''192.168.1.2:8443'')))) = [''10.0.0.1:8443'']"
proof -
  let ?st = "listenServiceStart exampleRegistry (NewUpstreamer exampleConfig)"
  let ?sp = "helloPing ''accounts'' ''192.168.1.2:8443''"
  have ov: "overrideEndpointAddress (config (upstreamer ?st)) = ''10.0.0.1''"
    unfolding exampleStart by (simp add: NewUpstreamer_def exampleConfig_def)
  then have h1: "overrideEndpointAddress (config (upstreamer ?st)) \<noteq> ''''" by simp
  have h2: "SplitHostPort (Endpoint ?sp) = Inr (''192.168.1.2'', ''8443'')"
    by (simp add: helloPing_def split_example)
  have h3: "status ?st = Listening" unfolding exampleStart by simp
  have h4: "Status ?sp = serviceStatusHello"
    by (simp add: helloPing_def serviceStatusHello_def)
  note t = override_replaces_host [OF h1 h2 h3, of exampleRegistry]
  have e: "Endpoint (overrideEndpoint (config (upstreamer ?st)) ?sp) = ''10.0.0.1:8443''"
    using t ov by simp
  have eq: "listenServiceRound exampleRegistry ?st (Publication (Some ?sp)) =
      onHello exampleRegistry ?st (?sp\<lparr>Endpoint := ''10.0.0.1'' @ '':'' @ ''8443''\<rparr>)"
    using t [unfolded ov] h4 by blast
  have oh: "services (onHello exampleRegistry ?st
      (?sp\<lparr>Endpoint := ''10.0.0.1'' @ '':'' @ ''8443''\<rparr>)) = [''10.0.0.1:8443'']"
    unfolding exampleStart
    by (simp add: onHello_def exampleRegistry_def resync_def Let_def helloPing_def)
  have r: "services (listenServiceRound exampleRegistry ?st (Publication (Some ?sp))) =
      [''10.0.0.1:8443'']"
    by (simp only: eq oh)
  show ?thesis using h1 h2 h3 h4 e r by blast
qed


subsection \<open>The ready signal\<close>

lemma helloNames_Nil [simp]: "helloNames [] = {}"
  by (simp add: helloNames_def map_filter_simps)




text \<open>The branches that leave the ready signal alone.\<close>

lemma resync_fields [simp]:
  "requiredCount (resync ops st) = requiredCount st"
  "requiredReady (resync ops st) = requiredReady st"
  "requiredNotifSent (resync ops st) = requiredNotifSent st"
  "requiredSeen (resync ops st) = requiredSeen st"
  "readyCloses (resync ops st) = readyCloses st"
  "status (resync ops st) = status st"
  by (simp_all add: resync_def Let_def)

lemma feedbackDelete_fields [simp]:
  "requiredCount (feedbackDelete ep st) = requiredCount st"
  "requiredReady (feedbackDelete ep st) = requiredReady st"
  "requiredNotifSent (feedbackDelete ep st) = requiredNotifSent st"
  "requiredSeen (feedbackDelete ep st) = requiredSeen st"
  "readyCloses (feedbackDelete ep st) = readyCloses st"
  "status (feedbackDelete ep st) = status st"
  by (simp_all add: feedbackDelete_def Let_def)

lemma readyTracking_cong:
  assumes "readyTracking rs names st"
    and "requiredCount st' = requiredCount st" "requiredReady st' = requiredReady st"
    and "requiredNotifSent st' = requiredNotifSent st" "requiredSeen st' = requiredSeen st"
    and "readyCloses st' = readyCloses st" "status st' = status st"
  shows "readyTracking rs names st'"
  using assms by (simp add: readyTracking_def)















lemma helloName_helloPing:
  "helloName (Publication (Some (helloPing name endpoint))) = Some name"
  by (simp add: helloPing_def serviceStatusHello_def)



text \<open>With a name listed twice, the count of required services is never reached.\<close>

lemma repeated_required_service:
  "readyCloses (listenService exampleRegistry
     (NewUpstreamer (exampleConfig\<lparr>requiredServices := [''accounts'', ''accounts'']\<rparr>))
     [Publication (Some (helloPing ''accounts'' ''192.168.1.2:8443'')),
      Publication (Some (helloPing ''accounts'' ''192.168.1.2:8443''))]) = 0"
  by (simp add: listenService_def listenServiceStart_def listenServiceRound_def
        onPublication_def onHello_def NewUpstreamer_def exampleConfig_def exampleRegistry_def
        resync_def Let_def helloPing_def serviceStatusHello_def overrideEndpoint_def
        split_example closeReady_def)

section \<open>Properties of push sessions\<close>

lemma exampleSession_fields:
  "unregisterFunc exampleSession = Some (Callback ''unregister'')"
  "sType exampleSession = pushSessionTypeEvent"
  "sessionFilter exampleSession = None"
  "unregistered exampleSession = 0"
  "stopAll exampleSession = 0"
  "filters exampleSession = []"
  "socket exampleSession = exampleSocket"
  "events exampleSession = []"
  "startTime exampleSession = 100"
  by (simp_all add: exampleSession_def newPushSession_def newSession_def)


subsection \<open>Pushing and writing events\<close>

lemma DirectPush_startTime: "startTime (DirectPush s evs) = startTime s"
  by (induction evs arbitrary: s) simp_all

lemma DirectPush_events:
  "events (DirectPush s evs) =
     events s @ filter (\<lambda>e. startTime s \<le> Timestamp e) evs"
  by (induction evs arbitrary: s) (simp_all add: Before_def not_less)

lemma DirectPush_append: "DirectPush s (evs1 @ evs2) = DirectPush (DirectPush s evs1) evs2"
  by (induction evs1 arbitrary: s) simp_all

text \<open>
  Claim C3. \<open>DirectPush\<close> sends on the events channel exactly the given events whose
  timestamp is not before the start time of the session, in the order they were
  given: an event that is strictly earlier than the start time is dropped, every
  other event is sent, and a later call of \<open>DirectPush\<close> sends its events after those
  of this one.
\<close>

theorem DirectPush_order:
  "events (DirectPush s evs) = events s @ filter (\<lambda>e. startTime s \<le> Timestamp e) evs \<and>
   subseq (filter (\<lambda>e. startTime s \<le> Timestamp e) evs) evs \<and>
   (\<forall>e \<in> set evs. Timestamp e < startTime s \<longrightarrow>
        e \<notin> set (filter (\<lambda>e. startTime s \<le> Timestamp e) evs)) \<and>
   (\<forall>e \<in> set evs. startTime s \<le> Timestamp e \<longrightarrow>
        e \<in> set (filter (\<lambda>e. startTime s \<le> Timestamp e) evs)) \<and>
   events (DirectPush (DirectPush s evs) later) =
     events (DirectPush s evs) @ filter (\<lambda>e. startTime s \<le> Timestamp e) later"
  by (auto simp: DirectPush_events DirectPush_startTime)

theorem DirectPush_order_witness:
  "eventAt ''J'' 99 \<in> set [eventAt ''J'' 99, eventAt ''J'' 100, eventAt ''J'' 101] \<and>
   Timestamp (eventAt ''J'' 99) < startTime exampleSession \<and>
   eventAt ''J'' 101 \<in> set [eventAt ''J'' 99, eventAt ''J'' 100, eventAt ''J'' 101] \<and>
   startTime exampleSession \<le> Timestamp (eventAt ''J'' 101) \<and>
   events (DirectPush exampleSession [eventAt ''J'' 99, eventAt ''J'' 100, eventAt ''J'' 101]) =
     [eventAt ''J'' 100, eventAt ''J'' 101]"
  using DirectPush_order [of exampleSession
      "[eventAt ''J'' 99, eventAt ''J'' 100, eventAt ''J'' 101]" "[]"]
  by (simp add: exampleSession_def newPushSession_def newSession_def eventAt_def)

lemma IsFilteredOut_Duplicate: "IsFilteredOut (Duplicate f) = IsFilteredOut f"
  by (simp add: Duplicate_def)

lemma writeEvent_sent:
  assumes "\<not> isClosed (socket s)" "\<not> peerGone (socket s)"
  shows "writeEvent s event =
     (if filteredOut (sessionFilter s) event then (s, Running)
      else (s\<lparr>socket := (socket s)\<lparr>sent := sent (socket s) @ [EventFrame event]\<rparr>\<rparr>, Running))"
  using assms
  by (auto simp: writeEvent_def currentFilter_def filteredOut_def JSON_Send_def
        IsFilteredOut_Duplicate split: option.splits)




text \<open>Together: on a socket that takes every frame, the frames written for the events
  of a \<open>DirectPush\<close> are those of the events that are neither earlier than the start of
  the session nor filtered out, in the order of the call.\<close>

lemma write_loop_drains:
  assumes "\<not> isClosed (socket s)" "\<not> peerGone (socket s)"
  shows "write_loop s (replicate (length (events s)) FromEvents) =
     (s\<lparr>events := [],
        socket := (socket s)\<lparr>sent := sent (socket s) @
          map EventFrame (filter (\<lambda>e. \<not> filteredOut (sessionFilter s) e) (events s))\<rparr>\<rparr>,
      Running)"
  using assms
proof (induction "events s" arbitrary: s)
  case Nil
  then show ?case by simp
next
  case (Cons event waiting)
  have ev: "events s = event # waiting" using Cons.hyps(2) by simp
  let ?s0 = "s\<lparr>events := waiting\<rparr>"
  have w: "writeEvent ?s0 event =
     (if filteredOut (sessionFilter s) event then (?s0, Running)
      else (?s0\<lparr>socket := (socket s)\<lparr>sent := sent (socket s) @ [EventFrame event]\<rparr>\<rparr>,
            Running))"
    using writeEvent_sent [of ?s0 event] Cons.prems by simp
  show ?case
  proof (cases "filteredOut (sessionFilter s) event")
    case True
    have "waiting = events ?s0" by simp
    from Cons.hyps(1) [OF this] Cons.prems
    show ?thesis using ev w True by simp
  next
    case False
    let ?s1 = "?s0\<lparr>socket := (socket s)\<lparr>sent := sent (socket s) @ [EventFrame event]\<rparr>\<rparr>"
    have "waiting = events ?s1" by simp
    from Cons.hyps(1) [OF this] Cons.prems
    show ?thesis using ev w False by simp
  qed
qed

lemma pushed_events_delivered:
  assumes "\<not> isClosed (socket s)" "\<not> peerGone (socket s)" "events s = []"
  shows "sent (socket (fst (write_loop (DirectPush s evs)
            (replicate (length (events (DirectPush s evs))) FromEvents)))) =
         sent (socket s) @
           map EventFrame
             (filter (\<lambda>e. startTime s \<le> Timestamp e \<and> \<not> filteredOut (sessionFilter s) e) evs)"
proof -
  have f: "socket (DirectPush s evs) = socket s"
      "sessionFilter (DirectPush s evs) = sessionFilter s" for evs
    by (induction evs arbitrary: s) simp_all
  have "\<not> isClosed (socket (DirectPush s evs))" "\<not> peerGone (socket (DirectPush s evs))"
    using assms f by simp_all
  from write_loop_drains [OF this]
  show ?thesis
    using assms(3) by (simp add: f DirectPush_events conj_commute)
qed

subsection \<open>The end of a session\<close>

lemma deferred_registered:
  assumes "unregisterFunc s = Some cb"
  shows "deferred s =
     (s\<lparr>stopRead := stopRead s + 1, stopWrite := stopWrite s + 1,
        unregistered := unregistered s + 1, socket := Close (socket s),
        processorFinder := None, pushEventsFunc := None, unregisterFunc := None\<rparr>, Finished)"
  using assms by (simp add: deferred_def Let_def)

lemma handleOperation_socket:
  "\<exists>ws. handleOperation f s request = s\<lparr>socket := ws\<rparr>"
  by (cases "f request")
     (auto simp: handleOperation_def handleEventualPanic_def Let_def intro: exI)

lemma onRequest_eq:
  "onRequest d s request =
     (case dispatcherFor d (Operation (backportToken s request)) of
        None \<Rightarrow> s
      | Some f \<Rightarrow> handleOperation f s (backportToken s request))"
  by (cases "Operation (backportToken s request)")
     (simp_all add: onRequest_def handleRetrieveMany_def handleRetrieve_def handleCreate_def
        handleUpdate_def handleDelete_def handleInfo_def handlePatch_def)

lemma onRequest_socket: "\<exists>ws. onRequest d s request = s\<lparr>socket := ws\<rparr>"
proof (cases "dispatcherFor d (Operation (backportToken s request))")
  case None
  then have "onRequest d s request = s\<lparr>socket := socket s\<rparr>" by (simp add: onRequest_eq)
  then show ?thesis by blast
next
  case (Some f)
  then show ?thesis using handleOperation_socket by (simp add: onRequest_eq)
qed


lemma deferred_cleanedUp:
  assumes "unregisterFunc s = Some cb"
    and "unregistered s = u" "stopRead s = r" "stopWrite s = w"
  shows "\<exists>s'. deferred s = (s', Finished) \<and> unregistered s' = u + 1 \<and>
     stopRead s' = r + 1 \<and> stopWrite s' = w + 1 \<and> isClosed (socket s') \<and>
     processorFinder s' = None \<and> pushEventsFunc s' = None \<and> unregisterFunc s' = None"
  using assms by (simp add: deferred_registered Close_def)

lemma listenToPushEvents_finishes:
  assumes "unregisterFunc s = Some cb" and "0 < stopAll s" and "FromStopAll \<in> set rounds"
  shows "\<exists>s'. listenToPushEvents s rounds = (s', Finished) \<and> cleanedUp s s'"
  using assms
proof (induction rounds arbitrary: s)
  case Nil
  then show ?case by simp
next
  case (Cons round rounds)
  show ?case
  proof (cases round)
    case FromStopAll
    have "\<exists>s'. deferred (s\<lparr>stopAll := stopAll s - 1\<rparr>) = (s', Finished) \<and>
        unregistered s' = unregistered s + 1 \<and> stopRead s' = stopRead s + 1 \<and>
        stopWrite s' = stopWrite s + 1 \<and> isClosed (socket s') \<and>
        processorFinder s' = None \<and> pushEventsFunc s' = None \<and> unregisterFunc s' = None"
      using Cons.prems(1) by (intro deferred_cleanedUp) simp_all
    then show ?thesis
      using FromStopAll Cons.prems(2) by (simp add: cleanedUp_def)
  next
    case FromInput
    then have later: "FromStopAll \<in> set rounds" using Cons.prems(3) by simp
    show ?thesis
    proof (cases "filters s")
      case Nil
      then show ?thesis using FromInput Cons.IH [OF Cons.prems(1,2) later] by simp
    next
      case (Cons f waiting)
      let ?s1 = "setCurrentFilter (s\<lparr>filters := waiting\<rparr>) f"
      have "unregisterFunc ?s1 = Some cb" "0 < stopAll ?s1"
        using Cons.prems(1,2) by (simp_all add: setCurrentFilter_def)
      from Cons.IH [OF this later]
      obtain s' where "listenToPushEvents ?s1 rounds = (s', Finished)" "cleanedUp ?s1 s'"
        by blast
      then show ?thesis
        using FromInput Cons by (simp add: cleanedUp_def setCurrentFilter_def)
    qed
  qed
qed

lemma listenToAPIRequest_finishes:
  assumes "unregisterFunc s = Some cb" and "0 < stopAll s" and "FromStopAll \<in> set rounds"
  shows "\<exists>s'. listenToAPIRequest d s rounds = (s', Finished) \<and> cleanedUp s s'"
  using assms
proof (induction rounds arbitrary: s)
  case Nil
  then show ?case by simp
next
  case (Cons round rounds)
  show ?case
  proof (cases round)
    case FromStopAll
    have "\<exists>s'. deferred (s\<lparr>stopAll := stopAll s - 1\<rparr>) = (s', Finished) \<and>
        unregistered s' = unregistered s + 1 \<and> stopRead s' = stopRead s + 1 \<and>
        stopWrite s' = stopWrite s + 1 \<and> isClosed (socket s') \<and>
        processorFinder s' = None \<and> pushEventsFunc s' = None \<and> unregisterFunc s' = None"
      using Cons.prems(1) by (intro deferred_cleanedUp) simp_all
    then show ?thesis
      using FromStopAll Cons.prems(2) by (simp add: cleanedUp_def)
  next
    case FromInput
    then have later: "FromStopAll \<in> set rounds" using Cons.prems(3) by simp
    show ?thesis
    proof (cases "requests s")
      case Nil
      then show ?thesis using FromInput Cons.IH [OF Cons.prems(1,2) later] by simp
    next
      case (Cons request waiting)
      let ?s1 = "onRequest d (s\<lparr>requests := waiting\<rparr>) request"
      obtain ws where s1: "?s1 = s\<lparr>requests := waiting, socket := ws\<rparr>"
        using onRequest_socket [of d "s\<lparr>requests := waiting\<rparr>" request] by auto
      have "unregisterFunc ?s1 = Some cb" "0 < stopAll ?s1"
        using Cons.prems(1,2) by (simp_all add: s1)
      from Cons.IH [OF this later]
      obtain s' where "listenToAPIRequest d ?s1 rounds = (s', Finished)" "cleanedUp ?s1 s'"
        by blast
      then show ?thesis
        using FromInput Cons by (simp add: cleanedUp_def s1)
    qed
  qed
qed


lemma deferred_count:
  "unregistered (fst (deferred s)) =
     unregistered s + (if snd (deferred s) = Finished then 1 else 0)"
  by (simp add: deferred_def Let_def split: option.splits)

lemma listenToPushEvents_count:
  "unregistered (fst (listenToPushEvents s rounds)) =
     unregistered s + (if snd (listenToPushEvents s rounds) = Finished then 1 else 0)"
proof (induction s rounds rule: listenToPushEvents.induct)
  case (1 s)
  then show ?case by simp
next
  case (2 s rest)
  then show ?case by (cases "filters s") (simp_all add: setCurrentFilter_def)
next
  case (3 s rest)
  then show ?case using deferred_count [of "s\<lparr>stopAll := stopAll s - 1\<rparr>"] by simp
qed

lemma listenToAPIRequest_count:
  "unregistered (fst (listenToAPIRequest d s rounds)) =
     unregistered s + (if snd (listenToAPIRequest d s rounds) = Finished then 1 else 0)"
proof (induction d s rounds rule: listenToAPIRequest.induct)
  case (1 d s)
  then show ?case by simp
next
  case (2 d s rest)
  show ?case
  proof (cases "requests s")
    case Nil
    then show ?thesis using 2 by simp
  next
    case (Cons request waiting)
    obtain ws where "onRequest d (s\<lparr>requests := waiting\<rparr>) request =
        s\<lparr>requests := waiting, socket := ws\<rparr>"
      using onRequest_socket [of d "s\<lparr>requests := waiting\<rparr>" request] by auto
    then show ?thesis using 2 Cons by simp
  qed
next
  case (3 d s rest)
  then show ?case using deferred_count [of "s\<lparr>stopAll := stopAll s - 1\<rparr>"] by simp
qed

lemma afterCause_signals:
  assumes "\<forall>event. cause = WriteFails event \<longrightarrow> \<not> filteredOut (sessionFilter s) event"
  shows "\<exists>ws. afterCause cause s = s\<lparr>stopAll := stopAll s + 1, socket := ws\<rparr>"
proof (cases cause)
  case ReadFails
  have "afterCause cause s = s\<lparr>stopAll := stopAll s + 1, socket := socket s\<rparr>"
    using ReadFails by (simp add: afterCause_def split: pushSessionType.splits)
  then show ?thesis by blast
next
  case (WriteFails event)
  then have "\<not> filteredOut (sessionFilter s) event" using assms by simp
  then have "afterCause cause s =
      s\<lparr>stopAll := stopAll s + 1, socket := (socket s)\<lparr>peerGone := True\<rparr>\<rparr>"
    using WriteFails
    by (auto simp: afterCause_def writeEvent_def currentFilter_def filteredOut_def
          JSON_Send_def Duplicate_def split: option.splits)
  then show ?thesis by blast
next
  case InternalStop
  have "afterCause cause s = s\<lparr>stopAll := stopAll s + 1, socket := socket s\<rparr>"
    using InternalStop by (simp add: afterCause_def close_def)
  then show ?thesis by blast
qed

text \<open>
  Claim C8. Take a session of either role with its unregister callback set and let one
  of the causes of termination happen: a failed read of the reader (which is what a
  peer closing the socket gives), a failed write of an event that the writer does
  send, or the internal \<open>close\<close>. Then a control loop that gets to take its
  \<open>stopAll\<close> branch returns, and it leaves one signal for the reader and one for the
  writer, the socket closed, no callback retained, and the unregister callback called
  exactly once. In any run of a control loop the callback is called once if the loop
  returns and not at all otherwise.
\<close>

theorem unregistered_exactly_once:
  assumes cb: "unregisterFunc s \<noteq> None"
    and sched: "FromStopAll \<in> set rounds"
    and wf: "\<forall>event. cause = WriteFails event \<longrightarrow> \<not> filteredOut (sessionFilter s) event"
  shows "(\<exists>s'. listen d (afterCause cause s) rounds = (s', Finished) \<and>
            cleanedUp (afterCause cause s) s' \<and> unregistered s' = unregistered s + 1) \<and>
         unregistered (fst (listen d t schedule)) =
           unregistered t + (if snd (listen d t schedule) = Finished then 1 else 0)"
proof
  obtain ws where a: "afterCause cause s = s\<lparr>stopAll := stopAll s + 1, socket := ws\<rparr>"
    using afterCause_signals [OF wf] by blast
  obtain f where f: "unregisterFunc s = Some f" using cb by auto
  have h1: "unregisterFunc (afterCause cause s) = Some f" using f by (simp add: a)
  have h2: "0 < stopAll (afterCause cause s)" by (simp add: a)
  have u: "unregistered (afterCause cause s) = unregistered s" by (simp add: a)
  have t: "sType (afterCause cause s) = sType s" by (simp add: a)
  show "\<exists>s'. listen d (afterCause cause s) rounds = (s', Finished) \<and>
           cleanedUp (afterCause cause s) s' \<and> unregistered s' = unregistered s + 1"
  proof (cases "sType s")
    case pushSessionTypeEvent
    from listenToPushEvents_finishes [OF h1 h2 sched]
    obtain s' where "listenToPushEvents (afterCause cause s) rounds = (s', Finished)"
      and "cleanedUp (afterCause cause s) s'" by blast
    then show ?thesis
      using pushSessionTypeEvent t u by (auto simp: listen_def cleanedUp_def)
  next
    case pushSessionTypeAPI
    from listenToAPIRequest_finishes [OF h1 h2 sched]
    obtain s' where "listenToAPIRequest d (afterCause cause s) rounds = (s', Finished)"
      and "cleanedUp (afterCause cause s) s'" by blast
    then show ?thesis
      using pushSessionTypeAPI t u by (auto simp: listen_def cleanedUp_def)
  qed
  show "unregistered (fst (listen d t schedule)) =
           unregistered t + (if snd (listen d t schedule) = Finished then 1 else 0)"
    using listenToPushEvents_count [of t schedule] listenToAPIRequest_count [of d t schedule]
    by (cases "sType t") (simp_all add: listen_def)
qed

theorem unregistered_exactly_once_witness:
  "unregisterFunc exampleSession \<noteq> None \<and>
   FromStopAll \<in> set [FromInput, FromStopAll, FromStopAll] \<and>
   \<not> filteredOut (sessionFilter exampleSession) (eventAt ''J'' 101) \<and>
   snd (listen exampleDispatchers (afterCause ReadFails exampleSession)
          [FromInput, FromStopAll, FromStopAll]) = Finished \<and>
   unregistered (fst (listen exampleDispatchers (afterCause ReadFails exampleSession)
          [FromInput, FromStopAll, FromStopAll])) = 1 \<and>
   unregistered (fst (listen exampleDispatchers
          (afterCause (WriteFails (eventAt ''J'' 101)) exampleSession)
          [FromInput, FromStopAll, FromStopAll])) = 1 \<and>
   unregistered (fst (listen exampleDispatchers (afterCause InternalStop exampleSession)
          [FromInput, FromStopAll, FromStopAll])) = 1"
proof -
  have cb: "unregisterFunc exampleSession \<noteq> None"
    by (simp add: exampleSession_fields)
  have sched: "FromStopAll \<in> set [FromInput, FromStopAll, FromStopAll]"
    by simp
  have nf: "\<not> filteredOut (sessionFilter exampleSession) (eventAt ''J'' 101)"
    by (simp add: exampleSession_fields filteredOut_def)
  have wf: "\<forall>event. cause = WriteFails event \<longrightarrow>
      \<not> filteredOut (sessionFilter exampleSession) event" for cause
    by (simp add: exampleSession_fields filteredOut_def)
  have once: "snd (listen exampleDispatchers (afterCause cause exampleSession)
          [FromInput, FromStopAll, FromStopAll]) = Finished \<and>
      unregistered (fst (listen exampleDispatchers (afterCause cause exampleSession)
          [FromInput, FromStopAll, FromStopAll])) = 1" for cause
  proof -
    from unregistered_exactly_once [OF cb sched wf, where d = exampleDispatchers
        and cause = cause, THEN conjunct1]
    obtain s' where "listen exampleDispatchers (afterCause cause exampleSession)
          [FromInput, FromStopAll, FromStopAll] = (s', Finished)"
      and "unregistered s' = unregistered exampleSession + 1"
      by blast
    then show ?thesis by (simp add: exampleSession_fields)
  qed
  show ?thesis
    using cb sched nf once by blast
qed

subsection \<open>Requests of an API session\<close>

lemma backportToken_Operation: "Operation (backportToken s request) = Operation request"
  by (simp add: backportToken_def Let_def)

lemma backportToken_requests: "backportToken (s\<lparr>requests := q\<rparr>) request = backportToken s request"
  by (simp add: backportToken_def)

text \<open>
  Claim C4. When the control loop of an API session, on a socket that takes frames,
  receives a request for one of the seven operations and the dispatcher of that
  operation panics, the panic is caught: the loop goes on with its next rounds from a
  session that differs only by the request being consumed and by exactly one more
  frame on the socket, an error response for that request with the code 500
  (\<open>Internal Server Error\<close>).
\<close>

theorem handler_panic_contained:
  assumes rq: "requests s = request # waiting"
    and op: "dispatcherFor d (Operation request) = Some dispatch"
    and pn: "dispatch (backportToken s request) = DispatchPanics r"
    and oc: "\<not> isClosed (socket s)" and al: "\<not> peerGone (socket s)"
  shows "listenToAPIRequest d s (FromInput # rounds) =
     listenToAPIRequest d
       (s\<lparr>requests := waiting,
          socket := (socket s)\<lparr>sent := sent (socket s) @
            [ErrorFrame \<lparr>Request = Some (backportToken s request)\<rparr>
               \<lparr>Title = ''Internal Server Error'', Description = r, Subject = ''bahamut'',
                Code = 500\<rparr>]\<rparr>\<rparr>) rounds"
proof -
  have "onRequest d (s\<lparr>requests := waiting\<rparr>) request =
      handleOperation dispatch (s\<lparr>requests := waiting\<rparr>) (backportToken s request)"
    using op by (simp add: onRequest_eq backportToken_Operation backportToken_requests)
  also have "\<dots> = s\<lparr>requests := waiting,
          socket := (socket s)\<lparr>sent := sent (socket s) @
            [ErrorFrame \<lparr>Request = Some (backportToken s request)\<rparr>
               \<lparr>Title = ''Internal Server Error'', Description = r, Subject = ''bahamut'',
                Code = 500\<rparr>]\<rparr>\<rparr>"
    using pn oc al
    by (simp add: handleOperation_def handleEventualPanic_def writeWebSocketError_def
          JSON_Send_def NewError_def NewResponse_def StatusInternalServerError_def)
  finally show ?thesis using rq by simp
qed

text \<open>
  Claim C10. When the control loop of an API session receives a request whose
  operation is none of the seven, no handler runs and nothing is written: the session
  is unchanged but for the request being consumed, and the loop goes on with its next
  rounds.
\<close>

theorem unknown_operation_discarded:
  assumes rq: "requests s = request # waiting"
    and op: "Operation request = OperationOther name"
  shows "onRequest d (s\<lparr>requests := waiting\<rparr>) request = s\<lparr>requests := waiting\<rparr> \<and>
     listenToAPIRequest d s (FromInput # rounds) =
       listenToAPIRequest d (s\<lparr>requests := waiting\<rparr>) rounds"
proof -
  have "onRequest d (s\<lparr>requests := waiting\<rparr>) request = s\<lparr>requests := waiting\<rparr>"
    using op by (simp add: onRequest_eq backportToken_Operation)
  then show ?thesis using rq by simp
qed

lemma exampleAPISession_fields:
  "requests exampleAPISession = []"
  "socket exampleAPISession = exampleSocket"
  "stopAll exampleAPISession = 0"
  "stopRead exampleAPISession = 0"
  "Parameters exampleAPISession = [''token'' \<mapsto> ''abc'']"
  by (simp_all add: exampleAPISession_def newAPISession_def newSession_def)


lemma exampleAPISessionWith_two:
  "exampleAPISessionWith [a, b] = exampleAPISession\<lparr>requests := [a, b]\<rparr>"
  by (simp add: exampleAPISessionWith_def exampleAPISession_fields)

lemma bearer:
  "Parameters s = [''token'' \<mapsto> ''abc''] \<Longrightarrow>
   backportToken s request = request\<lparr>Username := ''Bearer'', Password := ''abc''\<rparr>"
  by (simp add: backportToken_def Get_def)

theorem handler_panic_contained_witness:
  "requests (exampleAPISessionWith [createRequest, retrieveRequest]) =
     [createRequest, retrieveRequest] \<and>
   dispatcherFor exampleDispatchers (Operation createRequest) =
     Some (dispatchCreateOperation exampleDispatchers) \<and>
   dispatchCreateOperation exampleDispatchers
     (backportToken (exampleAPISessionWith [createRequest, retrieveRequest]) createRequest) =
     DispatchPanics ''boom'' \<and>
   \<not> isClosed (socket (exampleAPISessionWith [createRequest, retrieveRequest])) \<and>
   \<not> peerGone (socket (exampleAPISessionWith [createRequest, retrieveRequest])) \<and>
   snd (listenToAPIRequest exampleDispatchers
          (exampleAPISessionWith [createRequest, retrieveRequest]) [FromInput, FromInput]) =
     Running \<and>
   sent (socket (fst (listenToAPIRequest exampleDispatchers
          (exampleAPISessionWith [createRequest, retrieveRequest]) [FromInput, FromInput]))) =
     [ErrorFrame
        \<lparr>Request = Some \<lparr>RequestID = ''1'', Operation = OperationCreate,
                           Username = ''Bearer'', Password = ''abc''\<rparr>\<rparr>
        \<lparr>Title = ''Internal Server Error'', Description = ''boom'', Subject = ''bahamut'',
         Code = 500\<rparr>,
      ResponseFrame
        \<lparr>Request = Some \<lparr>RequestID = ''2'', Operation = OperationRetrieve,
                           Username = ''Bearer'', Password = ''abc''\<rparr>\<rparr>
        ''one'']"
proof -
  let ?t = "exampleAPISession\<lparr>requests := [createRequest, retrieveRequest]\<rparr>"
  have s: "exampleAPISessionWith [createRequest, retrieveRequest] = ?t"
    by (rule exampleAPISessionWith_two)
  have h1: "requests ?t = createRequest # [retrieveRequest]"
    by simp
  have h2: "dispatcherFor exampleDispatchers (Operation createRequest) =
      Some (dispatchCreateOperation exampleDispatchers)"
    by (simp add: createRequest_def requestFor_def)
  have h3: "dispatchCreateOperation exampleDispatchers (backportToken ?t createRequest) =
      DispatchPanics ''boom''"
    by (simp add: exampleDispatchers_def)
  have h4: "\<not> isClosed (socket ?t)" and h5: "\<not> peerGone (socket ?t)"
    by (simp_all add: exampleAPISession_fields exampleSocket_def)
  have step: "listenToAPIRequest exampleDispatchers ?t [FromInput, FromInput] =
      listenToAPIRequest exampleDispatchers
        (?t\<lparr>requests := [retrieveRequest],
           socket := (socket ?t)\<lparr>sent := sent (socket ?t) @
             [ErrorFrame \<lparr>Request = Some (backportToken ?t createRequest)\<rparr>
                \<lparr>Title = ''Internal Server Error'', Description = ''boom'',
                 Subject = ''bahamut'', Code = 500\<rparr>]\<rparr>\<rparr>) [FromInput]"
    by (rule handler_panic_contained [OF h1 h2 h3 h4 h5])
  have rest: "listenToAPIRequest exampleDispatchers ?t [FromInput, FromInput] =
      (exampleAPISession\<lparr>requests := [],
         socket := exampleSocket\<lparr>sent :=
           [ErrorFrame
              \<lparr>Request = Some \<lparr>RequestID = ''1'', Operation = OperationCreate,
                                 Username = ''Bearer'', Password = ''abc''\<rparr>\<rparr>
              \<lparr>Title = ''Internal Server Error'', Description = ''boom'',
               Subject = ''bahamut'', Code = 500\<rparr>,
            ResponseFrame
              \<lparr>Request = Some \<lparr>RequestID = ''2'', Operation = OperationRetrieve,
                                 Username = ''Bearer'', Password = ''abc''\<rparr>\<rparr>
              ''one'']\<rparr>\<rparr>, Running)"
    by (subst step)
       (simp add: exampleAPISession_fields exampleSocket_def createRequest_def
          retrieveRequest_def bearer onRequest_eq backportToken_Operation requestFor_def
          exampleDispatchers_def handleOperation_def handleEventualPanic_def
          writeWebsocketResponse_def JSON_Send_def NewResponse_def)
  show ?thesis
    unfolding s rest using h1 h2 h3 h4 h5 by (simp add: exampleSocket_def)
qed

theorem unknown_operation_discarded_witness:
  "requests (exampleAPISessionWith [headRequest, retrieveRequest]) =
     [headRequest, retrieveRequest] \<and>
   Operation headRequest = OperationOther ''head'' \<and>
   snd (listenToAPIRequest exampleDispatchers
          (exampleAPISessionWith [headRequest, retrieveRequest]) [FromInput, FromInput]) =
     Running \<and>
   sent (socket (fst (listenToAPIRequest exampleDispatchers
          (exampleAPISessionWith [headRequest, retrieveRequest]) [FromInput]))) = [] \<and>
   sent (socket (fst (listenToAPIRequest exampleDispatchers
          (exampleAPISessionWith [headRequest, retrieveRequest]) [FromInput, FromInput]))) =
     [ResponseFrame
        \<lparr>Request = Some \<lparr>RequestID = ''2'', Operation = OperationRetrieve,
                           Username = ''Bearer'', Password = ''abc''\<rparr>\<rparr>
        ''one'']"
proof -
  let ?t = "exampleAPISession\<lparr>requests := [headRequest, retrieveRequest]\<rparr>"
  have s: "exampleAPISessionWith [headRequest, retrieveRequest] = ?t"
    by (rule exampleAPISessionWith_two)
  have h1: "requests ?t = headRequest # [retrieveRequest]"
    by simp
  have h2: "Operation headRequest = OperationOther ''head''"
    by (simp add: headRequest_def requestFor_def)
  have step: "listenToAPIRequest exampleDispatchers ?t (FromInput # rounds) =
      listenToAPIRequest exampleDispatchers (?t\<lparr>requests := [retrieveRequest]\<rparr>) rounds"
    for rounds
    using unknown_operation_discarded [OF h1 h2] by blast
  have one: "listenToAPIRequest exampleDispatchers ?t [FromInput] =
      (exampleAPISession\<lparr>requests := [retrieveRequest]\<rparr>, Running)"
    by (subst step) simp
  have two: "listenToAPIRequest exampleDispatchers ?t [FromInput, FromInput] =
      (exampleAPISession\<lparr>requests := [],
         socket := exampleSocket\<lparr>sent :=
           [ResponseFrame
              \<lparr>Request = Some \<lparr>RequestID = ''2'', Operation = OperationRetrieve,
                                 Username = ''Bearer'', Password = ''abc''\<rparr>\<rparr>
              ''one'']\<rparr>\<rparr>, Running)"
    by (subst step)
       (simp add: exampleAPISession_fields exampleSocket_def
          retrieveRequest_def bearer onRequest_eq backportToken_Operation requestFor_def
          exampleDispatchers_def handleOperation_def handleEventualPanic_def
          writeWebsocketResponse_def JSON_Send_def NewResponse_def)
  show ?thesis
    unfolding s one two using h1 h2 by (simp add: exampleAPISession_fields exampleSocket_def)
qed

end
